theory Spec2Isabelle
  imports Main "HOL-Library.Word"
begin

section \<open>Values, documents and the document store\<close>

text \<open>
  The backend of \<^verbatim>\<open>main.py\<close> keeps two collections of documents, \<^verbatim>\<open>user\<close> and
  \<^verbatim>\<open>requestitem\<close>, and answers every call with a dictionary, a list of dictionaries
  or an exception. Python values are modelled by the datatype \<open>val\<close>. A float is
  carried as the 64 bits of its IEEE representation: the handlers only pass floats
  through, they never compute with them. A dictionary is an association list in
  insertion order, as Python keeps it.
\<close>

datatype val =
    VNone
  | VStr string
  | VInt int
  | VFloat "64 word"
  | VBool bool
  | VDict "(string \<times> val) list"
  | VList "val list"

type_synonym pydict = "(string \<times> val) list"

text \<open>
  An exception is a value. \<open>HTTPException\<close> carries the status code and the detail
  string of the source; the other constructors are the Python errors the handlers can
  let escape, and \<open>LibraryError\<close> is whatever the password library raises.
\<close>

datatype exn =
    HTTPException nat string
  | KeyError string
  | TypeError string
  | LibraryError string

text \<open>\<^verbatim>\<open>d.get(k, default)\<close> and \<^verbatim>\<open>d[k]\<close> on a dictionary.\<close>

definition dict_get :: "pydict \<Rightarrow> string \<Rightarrow> val \<Rightarrow> val" where
  "dict_get d k dflt = (case map_of d k of None \<Rightarrow> dflt | Some v \<Rightarrow> v)"

definition dict_item :: "pydict \<Rightarrow> string \<Rightarrow> exn + val" where
  "dict_item d k = (case map_of d k of None \<Rightarrow> Inl (KeyError k) | Some v \<Rightarrow> Inr v)"

text \<open>
  \<^verbatim>\<open>d[k] = v\<close>: an existing key keeps its position and takes the new value, a new key
  goes to the end.
\<close>

fun dict_set :: "pydict \<Rightarrow> string \<Rightarrow> val \<Rightarrow> pydict" where
  "dict_set [] k v = [(k, v)]"
| "dict_set ((k', v') # d) k v = (if k' = k then (k, v) # d else (k', v') # dict_set d k v)"

text \<open>
  A stored document is its key \<^verbatim>\<open>_id\<close>, which the store assigns and which is always
  there, and its other fields. An object id is represented by the lower-case
  hexadecimal digits that \<^verbatim>\<open>str\<close> prints for its bytes, 24 of them for an id the
  store has assigned, so \<^verbatim>\<open>str(doc["_id"])\<close> is the identity on the representation.
\<close>

type_synonym oid = string

record document =
  doc_id :: oid
  doc_fields :: pydict

record store =
  colls :: "string \<Rightarrow> document list"
  next_oid :: nat

definition is_hex :: "char \<Rightarrow> bool" where
  "is_hex c = (c \<in> set ''0123456789abcdefABCDEF'')"

definition lower_hex :: "char \<Rightarrow> char" where
  "lower_hex c =
     (if c = CHR ''A'' then CHR ''a'' else if c = CHR ''B'' then CHR ''b''
      else if c = CHR ''C'' then CHR ''c'' else if c = CHR ''D'' then CHR ''d''
      else if c = CHR ''E'' then CHR ''e'' else if c = CHR ''F'' then CHR ''f'' else c)"

text \<open>
  \<^verbatim>\<open>ObjectId(user_id)\<close> is the constructor of the store's driver. For a string it
  asks for exactly 24 characters and then decodes them with \<^verbatim>\<open>bytes.fromhex\<close>, raising
  when either step fails; raising is \<open>None\<close> here. \<^verbatim>\<open>bytes.fromhex\<close> reads pairs of
  hexadecimal digits and skips ASCII white space in front of a pair and at the end, so
  a string of 24 characters with white space between pairs decodes to fewer than
  twelve bytes and is accepted. The bytes are kept as the lower-case digits that
  \<^verbatim>\<open>str\<close> prints for them.
\<close>

definition is_space :: "char \<Rightarrow> bool" where
  "is_space c = (c \<in> set [CHR '' '', CHR 0x09, CHR 0x0A, CHR 0x0B, CHR 0x0C, CHR 0x0D])"

fun fromhex :: "string \<Rightarrow> string option" where
  "fromhex [] = Some []"
| "fromhex [c] = (if is_space c then Some [] else None)"
| "fromhex (c # d # cs) =
     (if is_space c then fromhex (d # cs)
      else if is_hex c \<and> is_hex d
        then map_option (\<lambda>bs. lower_hex c # lower_hex d # bs) (fromhex cs)
      else None)"

definition ObjectId :: "string \<Rightarrow> oid option" where
  "ObjectId s = (if length s = 24 then fromhex s else None)"

text \<open>
  \<^verbatim>\<open>db[name].find_one(filter)\<close>: the first document of the collection that matches,
  or \<^verbatim>\<open>None\<close>. The two filters of the source are equality on a field and equality
  on \<^verbatim>\<open>_id\<close>. Equality on a field also matches a document that holds a list with
  the value among its elements, and the value \<^verbatim>\<open>None\<close> matches a missing field.
\<close>

definition field_is :: "string \<Rightarrow> val \<Rightarrow> document \<Rightarrow> bool" where
  "field_is k v d =
     (case map_of (doc_fields d) k of
        None \<Rightarrow> v = VNone
      | Some (VList vs) \<Rightarrow> v = VList vs \<or> v \<in> set vs
      | Some w \<Rightarrow> w = v)"

definition id_is :: "oid \<Rightarrow> document \<Rightarrow> bool" where
  "id_is i d = (doc_id d = i)"

definition find_one :: "store \<Rightarrow> string \<Rightarrow> (document \<Rightarrow> bool) \<Rightarrow> document option" where
  "find_one db name flt = find flt (colls db name)"

text \<open>
  \<^verbatim>\<open>db[name].update_one(filter, {"$set": update})\<close>: the first matching document
  takes the fields of \<open>update\<close>; no document matching is not an error.
\<close>

definition set_fields :: "pydict \<Rightarrow> document \<Rightarrow> document" where
  "set_fields upd d = d\<lparr>doc_fields := foldl (\<lambda>fs (k, v). dict_set fs k v) (doc_fields d) upd\<rparr>"

fun update_first :: "(document \<Rightarrow> bool) \<Rightarrow> pydict \<Rightarrow> document list \<Rightarrow> document list" where
  "update_first flt upd [] = []"
| "update_first flt upd (d # ds) =
     (if flt d then set_fields upd d # ds else d # update_first flt upd ds)"

definition update_one :: "store \<Rightarrow> string \<Rightarrow> (document \<Rightarrow> bool) \<Rightarrow> pydict \<Rightarrow> store" where
  "update_one db name flt upd = db\<lparr>colls := (colls db)(name := update_first flt upd (colls db name))\<rparr>"

section \<open>The profile handlers\<close>

record ProfileUpdate =
  pu_name :: "string option"
  pu_photo_url :: "string option"

definition opt_str :: "string option \<Rightarrow> val" where
  "opt_str x = (case x of None \<Rightarrow> VNone | Some s \<Rightarrow> VStr s)"

definition ProfileUpdate_dump :: "ProfileUpdate \<Rightarrow> pydict" where
  "ProfileUpdate_dump p = [(''name'', opt_str (pu_name p)), (''photo_url'', opt_str (pu_photo_url p))]"

text \<open>
  The dictionary both profile handlers answer with. \<^verbatim>\<open>user["email"]\<close> raises
  \<^verbatim>\<open>KeyError\<close> on a document without that field; \<^verbatim>\<open>user.get\<close> does not raise.
\<close>

definition profile_body :: "document \<Rightarrow> exn + val" where
  "profile_body user =
     (case dict_item (doc_fields user) ''email'' of
        Inl e \<Rightarrow> Inl e
      | Inr em \<Rightarrow> Inr (VDict [(''id'', VStr (doc_id user)), (''email'', em),
                             (''name'', dict_get (doc_fields user) ''name'' VNone),
                             (''photo_url'', dict_get (doc_fields user) ''photo_url'' VNone)]))"

definition get_profile :: "store \<Rightarrow> string \<Rightarrow> exn + val" where
  "get_profile db user_id =
     (case ObjectId user_id of
        None \<Rightarrow> Inl (HTTPException 400 ''Invalid user id'')
      | Some i \<Rightarrow>
          (case find_one db ''user'' (id_is i) of
             None \<Rightarrow> Inl (HTTPException 404 ''User not found'')
           | Some user \<Rightarrow> profile_body user))"

text \<open>
  \<^verbatim>\<open>update_profile\<close> reads the document back after the write and subscripts it
  without a test: when no user has the id, \<^verbatim>\<open>user\<close> is \<^verbatim>\<open>None\<close> and the subscript
  raises \<^verbatim>\<open>TypeError\<close>.
\<close>

definition update_profile :: "store \<Rightarrow> string \<Rightarrow> ProfileUpdate \<Rightarrow> (exn + val) \<times> store" where
  "update_profile db user_id payload =
     (case ObjectId user_id of
        None \<Rightarrow> (Inl (HTTPException 400 ''Invalid user id''), db)
      | Some i \<Rightarrow>
          (let update = filter (\<lambda>(k, v). v \<noteq> VNone) (ProfileUpdate_dump payload) in
           if update = [] then (Inr (VDict [(''updated'', VBool False)]), db)
           else
             (let db' = update_one db ''user'' (id_is i) update in
              case find_one db' ''user'' (id_is i) of
                None \<Rightarrow> (Inl (TypeError ''NoneType object is not subscriptable''), db')
              | Some user \<Rightarrow> (profile_body user, db'))))"

section \<open>Schemas\<close>

text \<open>
  The classes of \<^verbatim>\<open>schemas.py\<close> and the payload classes of \<^verbatim>\<open>main.py\<close>. A field
  annotated \<^verbatim>\<open>str\<close> is a \<open>string\<close>, \<^verbatim>\<open>Optional[str]\<close> a \<open>string option\<close>: the
  annotations are all the validation the classes declare, there is no validator, no
  length bound and no enumeration in either file. \<^verbatim>\<open>EmailStr\<close> fields hold a string
  that the framework has already checked for e-mail syntax.
\<close>

record SignupPayload =
  sp_name :: string
  sp_email :: string
  sp_password :: string

record LoginPayload =
  lp_email :: string
  lp_password :: string

record User =
  u_name :: string
  u_email :: string
  u_password_hash :: string
  u_photo_url :: "string option"

record Location =
  lat :: "64 word"
  lng :: "64 word"

record RequestItem =
  r_user_id :: string
  r_type :: string
  r_text :: "string option"
  r_voice_url :: "string option"
  r_photo_url :: "string option"
  r_contact_name :: "string option"
  r_contact_phone :: "string option"
  r_location :: "Location option"
  r_status :: string
  r_meta :: "pydict option"

text \<open>
  \<^verbatim>\<open>RequestItem(user_id=..., type=...)\<close>: the two required fields, every other field
  at its default. A caller that passes more keywords updates the record.
\<close>

definition RequestItem_init :: "string \<Rightarrow> string \<Rightarrow> RequestItem" where
  "RequestItem_init user_id type =
     \<lparr>r_user_id = user_id, r_type = type, r_text = None, r_voice_url = None,
      r_photo_url = None, r_contact_name = None, r_contact_phone = None,
      r_location = None, r_status = ''sent'', r_meta = None\<rparr>"

text \<open>\<^verbatim>\<open>model_dump()\<close>: the fields as a dictionary, in declaration order.\<close>

definition Location_dump :: "Location \<Rightarrow> val" where
  "Location_dump l = VDict [(''lat'', VFloat (lat l)), (''lng'', VFloat (lng l))]"

definition User_dump :: "User \<Rightarrow> pydict" where
  "User_dump u =
     [(''name'', VStr (u_name u)), (''email'', VStr (u_email u)),
      (''password_hash'', VStr (u_password_hash u)), (''photo_url'', opt_str (u_photo_url u))]"

definition RequestItem_dump :: "RequestItem \<Rightarrow> pydict" where
  "RequestItem_dump r =
     [(''user_id'', VStr (r_user_id r)), (''type'', VStr (r_type r)),
      (''text'', opt_str (r_text r)), (''voice_url'', opt_str (r_voice_url r)),
      (''photo_url'', opt_str (r_photo_url r)),
      (''contact_name'', opt_str (r_contact_name r)),
      (''contact_phone'', opt_str (r_contact_phone r)),
      (''location'', (case r_location r of None \<Rightarrow> VNone | Some l \<Rightarrow> Location_dump l)),
      (''status'', VStr (r_status r)),
      (''meta'', (case r_meta r of None \<Rightarrow> VNone | Some m \<Rightarrow> VDict m))]"

text \<open>The labels the description of the field \<^verbatim>\<open>type\<close> lists.\<close>

definition request_types :: "string set" where
  "request_types = {''text'', ''voice'', ''photo'', ''contact'', ''location''}"

section \<open>The store adapter\<close>

definition hex_digit :: "nat \<Rightarrow> char" where
  "hex_digit n = ''0123456789abcdef'' ! (n mod 16)"

definition new_oid :: "nat \<Rightarrow> oid" where
  "new_oid n = map (\<lambda>i. hex_digit (n div 16 ^ (23 - i))) [0..<24]"

text \<open>
  Modelled from the spec: \<^verbatim>\<open>create_document\<close> of \<^verbatim>\<open>database.py\<close>, which is not among
  the sources. Section 4.3: it persists the validated record and returns the
  identifier the store has newly assigned to it. The store hands out identifiers from
  a counter.
\<close>

definition create_document :: "store \<Rightarrow> string \<Rightarrow> pydict \<Rightarrow> string \<times> store" where
  "create_document db name data =
     (let i = new_oid (next_oid db) in
      (i, db\<lparr>colls := (colls db)(name := colls db name @ [\<lparr>doc_id = i, doc_fields = data\<rparr>]),
             next_oid := Suc (next_oid db)\<rparr>))"

text \<open>
  Modelled from the spec: \<^verbatim>\<open>get_documents\<close> of \<^verbatim>\<open>database.py\<close>, which is not among
  the sources. Section 4.3: it returns up to \<open>limit\<close> matches in the order of the store.
\<close>

definition get_documents :: "store \<Rightarrow> string \<Rightarrow> (document \<Rightarrow> bool) \<Rightarrow> nat \<Rightarrow> document list" where
  "get_documents db name flt limit = take limit (filter flt (colls db name))"

section \<open>Sign-up and login\<close>

text \<open>
  \<^verbatim>\<open>pwd_context\<close> is an object of the password library, which is not part of the
  repository: the handlers take it as a parameter. \<open>pwd_hash\<close> gets the salt the
  library draws as its first argument; \<open>pwd_verify\<close> may raise.
\<close>

record CryptContext =
  pwd_hash :: "string \<Rightarrow> string \<Rightarrow> string"
  pwd_verify :: "string \<Rightarrow> val \<Rightarrow> exn + bool"

definition signup :: "CryptContext \<Rightarrow> string \<Rightarrow> store \<Rightarrow> SignupPayload \<Rightarrow> (exn + val) \<times> store" where
  "signup ctx salt db payload =
     (case find_one db ''user'' (field_is ''email'' (VStr (sp_email payload))) of
        Some existing \<Rightarrow> (Inl (HTTPException 400 ''Email already registered''), db)
      | None \<Rightarrow>
          (let hashed = pwd_hash ctx salt (sp_password payload);
               user = \<lparr>u_name = sp_name payload, u_email = sp_email payload,
                       u_password_hash = hashed, u_photo_url = None\<rparr>;
               (user_id, db') = create_document db ''user'' (User_dump user)
           in (Inr (VDict [(''id'', VStr user_id), (''email'', VStr (sp_email payload)),
                           (''name'', VStr (sp_name payload))]), db')))"

definition login :: "CryptContext \<Rightarrow> store \<Rightarrow> LoginPayload \<Rightarrow> exn + val" where
  "login ctx db payload =
     (case find_one db ''user'' (field_is ''email'' (VStr (lp_email payload))) of
        None \<Rightarrow> Inl (HTTPException 400 ''Invalid credentials'')
      | Some user \<Rightarrow>
          (case pwd_verify ctx (lp_password payload)
                  (dict_get (doc_fields user) ''password_hash'' (VStr [])) of
             Inl e \<Rightarrow> Inl e
           | Inr ok \<Rightarrow>
               if \<not> ok then Inl (HTTPException 400 ''Invalid credentials'')
               else
                 (case dict_item (doc_fields user) ''email'' of
                    Inl e \<Rightarrow> Inl e
                  | Inr em \<Rightarrow> Inr (VDict [(''id'', VStr (doc_id user)), (''email'', em),
                                         (''name'', dict_get (doc_fields user) ''name'' VNone)]))))"

section \<open>Submitting and listing requests\<close>

record UploadFile =
  uf_filename :: "string option"
  uf_content :: "8 word list"

definition upload_path :: "UploadFile \<Rightarrow> string" where
  "upload_path file = ''/uploads/'' @ (case uf_filename file of None \<Rightarrow> ''None'' | Some f \<Rightarrow> f)"

definition send_text :: "store \<Rightarrow> string \<Rightarrow> string \<Rightarrow> (exn + val) \<times> store" where
  "send_text db user_id text =
     (let item = (RequestItem_init user_id ''text'')\<lparr>r_text := Some text\<rparr>;
          (req_id, db') = create_document db ''requestitem'' (RequestItem_dump item)
      in (Inr (VDict [(''id'', VStr req_id), (''status'', VStr ''ok'')]), db'))"

definition send_contact :: "store \<Rightarrow> string \<Rightarrow> string \<Rightarrow> string \<Rightarrow> (exn + val) \<times> store" where
  "send_contact db user_id contact_name contact_phone =
     (let item = (RequestItem_init user_id ''contact'')
                   \<lparr>r_contact_name := Some contact_name, r_contact_phone := Some contact_phone\<rparr>;
          (req_id, db') = create_document db ''requestitem'' (RequestItem_dump item)
      in (Inr (VDict [(''id'', VStr req_id), (''status'', VStr ''ok'')]), db'))"

definition send_location :: "store \<Rightarrow> string \<Rightarrow> 64 word \<Rightarrow> 64 word \<Rightarrow> (exn + val) \<times> store" where
  "send_location db user_id la lo =
     (let loc = \<lparr>lat = la, lng = lo\<rparr>;
          item = (RequestItem_init user_id ''location'')\<lparr>r_location := Some loc\<rparr>;
          (req_id, db') = create_document db ''requestitem'' (RequestItem_dump item)
      in (Inr (VDict [(''id'', VStr req_id), (''status'', VStr ''ok'')]), db'))"

definition send_photo :: "store \<Rightarrow> string \<Rightarrow> UploadFile \<Rightarrow> (exn + val) \<times> store" where
  "send_photo db user_id file =
     (let content = uf_content file;
          photo_url = upload_path file;
          item = (RequestItem_init user_id ''photo'')
                   \<lparr>r_photo_url := Some photo_url,
                    r_meta := Some [(''size'', VInt (int (length content)))]\<rparr>;
          (req_id, db') = create_document db ''requestitem'' (RequestItem_dump item)
      in (Inr (VDict [(''id'', VStr req_id), (''status'', VStr ''ok''),
                      (''photo_url'', VStr photo_url)]), db'))"

definition send_voice :: "store \<Rightarrow> string \<Rightarrow> UploadFile \<Rightarrow> (exn + val) \<times> store" where
  "send_voice db user_id file =
     (let content = uf_content file;
          voice_url = upload_path file;
          item = (RequestItem_init user_id ''voice'')
                   \<lparr>r_voice_url := Some voice_url,
                    r_meta := Some [(''size'', VInt (int (length content)))]\<rparr>;
          (req_id, db') = create_document db ''requestitem'' (RequestItem_dump item)
      in (Inr (VDict [(''id'', VStr req_id), (''status'', VStr ''ok''),
                      (''voice_url'', VStr voice_url)]), db'))"

text \<open>
  \<^verbatim>\<open>list_requests\<close>: each document read gives up its \<^verbatim>\<open>_id\<close> and gets the field
  \<^verbatim>\<open>id\<close> with the printed identifier. The documents read are copies; the store is
  not touched.
\<close>

definition list_requests :: "store \<Rightarrow> string \<Rightarrow> pydict list" where
  "list_requests db user_id =
     (let docs = get_documents db ''requestitem'' (field_is ''user_id'' (VStr user_id)) 100
      in map (\<lambda>d. dict_set (doc_fields d) ''id'' (VStr (doc_id d))) docs)"

section \<open>The service as a whole\<close>

definition read_root :: val where
  "read_root = VDict [(''message'', VStr ''Backend is running'')]"

definition schema_info :: val where
  "schema_info = VDict [(''collections'', VList [VStr ''user'', VStr ''requestitem''])]"

datatype call =
    ReadRoot
  | SchemaInfo
  | Signup string SignupPayload
  | Login LoginPayload
  | GetProfile string
  | UpdateProfile string ProfileUpdate
  | SendText string string
  | SendContact string string string
  | SendLocation string "64 word" "64 word"
  | SendPhoto string UploadFile
  | SendVoice string UploadFile
  | ListRequests string

fun handle :: "CryptContext \<Rightarrow> store \<Rightarrow> call \<Rightarrow> (exn + val) \<times> store" where
  "handle ctx db ReadRoot = (Inr read_root, db)"
| "handle ctx db SchemaInfo = (Inr schema_info, db)"
| "handle ctx db (Signup salt p) = signup ctx salt db p"
| "handle ctx db (Login p) = (login ctx db p, db)"
| "handle ctx db (GetProfile i) = (get_profile db i, db)"
| "handle ctx db (UpdateProfile i p) = update_profile db i p"
| "handle ctx db (SendText u t) = send_text db u t"
| "handle ctx db (SendContact u n ph) = send_contact db u n ph"
| "handle ctx db (SendLocation u la lo) = send_location db u la lo"
| "handle ctx db (SendPhoto u f) = send_photo db u f"
| "handle ctx db (SendVoice u f) = send_voice db u f"
| "handle ctx db (ListRequests u) = (Inr (VList (map VDict (list_requests db u))), db)"

fun is_submission :: "call \<Rightarrow> bool" where
  "is_submission (SendText u t) = True"
| "is_submission (SendContact u n ph) = True"
| "is_submission (SendLocation u la lo) = True"
| "is_submission (SendPhoto u f) = True"
| "is_submission (SendVoice u f) = True"
| "is_submission c = False"

definition empty_store :: store where
  "empty_store = \<lparr>colls = (\<lambda>name. []), next_oid = 0\<rparr>"

text \<open>The store after a sequence of calls, starting from the empty one.\<close>

definition run :: "CryptContext \<Rightarrow> call list \<Rightarrow> store" where
  "run ctx cs = foldl (\<lambda>db c. snd (handle ctx db c)) empty_store cs"


text \<open>A value contains the field \<open>k\<close> when a dictionary anywhere inside it has the key.\<close>

fun has_key :: "string \<Rightarrow> val \<Rightarrow> bool" where
  "has_key k (VDict kvs) = list_ex (\<lambda>kv. fst kv = k \<or> has_key k (snd kv)) kvs"
| "has_key k (VList vs) = list_ex (has_key k) vs"
| "has_key k v = False"


section \<open>The password library's front end\<close>

text \<open>
  \<^verbatim>\<open>CryptContext(schemes=["bcrypt"]).verify(secret, hash)\<close> first identifies the scheme
  of the hash and only then hands it to the scheme. A hash of \<^verbatim>\<open>None\<close> answers
  \<^verbatim>\<open>False\<close>; a string that no scheme of the context identifies raises
  \<^verbatim>\<open>UnknownHashError\<close>; a bcrypt hash is recognised by its prefix. The bcrypt
  computation itself is a parameter, and it may raise too.
\<close>

record Bcrypt =
  hashpw :: "string \<Rightarrow> string \<Rightarrow> string"
  checkpw :: "string \<Rightarrow> string \<Rightarrow> exn + bool"

definition starts_with :: "string \<Rightarrow> string \<Rightarrow> bool" where
  "starts_with s p = (take (length p) s = p)"

definition bcrypt_identify :: "string \<Rightarrow> bool" where
  "bcrypt_identify h = list_ex (starts_with h) [''$2$'', ''$2a$'', ''$2x$'', ''$2y$'', ''$2b$'']"

definition CryptContext_verify :: "Bcrypt \<Rightarrow> string \<Rightarrow> val \<Rightarrow> exn + bool" where
  "CryptContext_verify prim secret h =
     (case h of
        VNone \<Rightarrow> Inr False
      | VStr s \<Rightarrow>
          if bcrypt_identify s then checkpw prim secret s
          else Inl (LibraryError ''UnknownHashError: hash could not be identified'')
      | _ \<Rightarrow> Inl (TypeError ''hash must be unicode or bytes''))"

definition passlib_context :: "Bcrypt \<Rightarrow> CryptContext" where
  "passlib_context prim = \<lparr>pwd_hash = hashpw prim, pwd_verify = CryptContext_verify prim\<rparr>"

section \<open>Concrete stores for evaluation\<close>

text \<open>
  A stand-in for the password library, to run the handlers on concrete inputs: the
  hash is the salt followed by the password. The general statements below hold for
  every library.
\<close>

definition plain_context :: CryptContext where
  "plain_context =
     \<lparr>pwd_hash = (\<lambda>salt secret. salt @ secret),
      pwd_verify = (\<lambda>secret h. Inr (h = VStr (''salt'' @ secret)))\<rparr>"

definition plain_bcrypt :: Bcrypt where
  "plain_bcrypt =
     \<lparr>hashpw = (\<lambda>salt secret. ''$2b$'' @ salt @ secret),
      checkpw = (\<lambda>secret h. Inr (h = ''$2b$salt'' @ secret))\<rparr>"

text \<open>The store after the sign-up of the scenario in section 8 of the specification.\<close>

definition ana_doc :: document where
  "ana_doc = \<lparr>doc_id = new_oid 0,
               doc_fields = [(''name'', VStr ''Ana''), (''email'', VStr ''ana@x.com''),
                             (''password_hash'', VStr ''saltpw123''), (''photo_url'', VNone)]\<rparr>"

definition ana_store :: store where
  "ana_store = \<lparr>colls = (\<lambda>name. if name = ''user'' then [ana_doc] else []), next_oid = 1\<rparr>"

text \<open>A store whose one user document has no field \<^verbatim>\<open>password_hash\<close>.\<close>

definition bob_doc :: document where
  "bob_doc = \<lparr>doc_id = new_oid 0,
               doc_fields = [(''name'', VStr ''Bob''), (''email'', VStr ''bob@x.com'')]\<rparr>"

definition bob_store :: store where
  "bob_store = \<lparr>colls = (\<lambda>name. if name = ''user'' then [bob_doc] else []), next_oid = 1\<rparr>"

section \<open>Identifiers\<close>

lemma hex_is_not_space: "is_hex c \<Longrightarrow> \<not> is_space c"
  by (auto simp: is_hex_def is_space_def)

lemma fromhex_hex_digits:
  "list_all is_hex s \<Longrightarrow> even (length s) \<Longrightarrow> \<exists>i. fromhex s = Some i"
  by (induction s rule: fromhex.induct) (auto simp: hex_is_not_space)

lemma ObjectId_hex_digits:
  assumes "length s = 24" and "list_all is_hex s"
  shows "\<exists>i. ObjectId s = Some i"
  using assms fromhex_hex_digits[of s] by (simp add: ObjectId_def)

text \<open>
  A string the constructor rejects is answered with the client error by both profile
  handlers, and the update leaves the store alone.
\<close>

lemma rejected_id_is_client_error:
  assumes "ObjectId user_id = None"
  shows "get_profile db user_id = Inl (HTTPException 400 ''Invalid user id'')"
    and "update_profile db user_id payload = (Inl (HTTPException 400 ''Invalid user id''), db)"
  using assms by (simp_all add: get_profile_def update_profile_def)

text \<open>
  Claim C1 says that every string that is not a 24-character hexadecimal key is
  answered with 400, \<open>Invalid user id\<close>, by the profile handlers, and never with 404.
  The handlers reject exactly what the constructor rejects, and the constructor lets
  white space between digit pairs pass. At the 24 characters
  \<^verbatim>\<open>01 23 45 67 89 ab cd ef \<close>, which are not 24 hexadecimal digits, the constructor
  returns an identifier of eight bytes: the update with an empty body answers
  \<open>updated: False\<close>, and the read goes on to the lookup and answers 404.
\<close>

theorem spaced_id_passes_the_guard:
  "length ''01 23 45 67 89 ab cd ef '' = 24
   \<and> \<not> list_all is_hex ''01 23 45 67 89 ab cd ef ''
   \<and> ObjectId ''01 23 45 67 89 ab cd ef '' = Some ''0123456789abcdef''
   \<and> update_profile ana_store ''01 23 45 67 89 ab cd ef '' \<lparr>pu_name = None, pu_photo_url = None\<rparr>
        = (Inr (VDict [(''updated'', VBool False)]), ana_store)
   \<and> get_profile ana_store ''01 23 45 67 89 ab cd ef ''
        = Inl (HTTPException 404 ''User not found'')"
proof -
  have o: "ObjectId ''01 23 45 67 89 ab cd ef '' = Some ''0123456789abcdef''"
    by (simp add: ObjectId_def is_space_def is_hex_def lower_hex_def)
  have "length (new_oid 0) \<noteq> length ''0123456789abcdef''"
    by (simp add: new_oid_def)
  then have n: "new_oid 0 \<noteq> ''0123456789abcdef''"
    by metis
  have g: "get_profile ana_store ''01 23 45 67 89 ab cd ef ''
        = Inl (HTTPException 404 ''User not found'')"
    using n by (simp add: o get_profile_def find_one_def ana_store_def id_is_def ana_doc_def)
  have u: "update_profile ana_store ''01 23 45 67 89 ab cd ef '' \<lparr>pu_name = None, pu_photo_url = None\<rparr>
        = (Inr (VDict [(''updated'', VBool False)]), ana_store)"
    by (simp add: o update_profile_def ProfileUpdate_dump_def opt_str_def)
  have h: "\<not> list_all is_hex ''01 23 45 67 89 ab cd ef ''"
    by (simp add: is_hex_def)
  from o g u h show ?thesis by simp
qed

section \<open>Sign-up and login\<close>

lemma find_one_Some_if:
  assumes "d \<in> set (colls db name)" "flt d"
  shows "\<exists>u. find_one db name flt = Some u"
  using assms by (cases "find flt (colls db name)") (auto simp: find_one_def find_None_iff)


text \<open>
  Claim C2. When a stored user has the e-mail address of the payload, sign-up fails
  with 400, \<open>Email already registered\<close>, and the store is the one it was.
\<close>

theorem signup_duplicate_email:
  assumes "d \<in> set (colls db ''user'')"
    and "map_of (doc_fields d) ''email'' = Some (VStr (sp_email payload))"
  shows "signup ctx salt db payload = (Inl (HTTPException 400 ''Email already registered''), db)"
proof -
  from assms(2) have "field_is ''email'' (VStr (sp_email payload)) d"
    by (simp add: field_is_def)
  with assms(1) obtain u where
    "find_one db ''user'' (field_is ''email'' (VStr (sp_email payload))) = Some u"
    using find_one_Some_if by blast
  then show ?thesis by (simp add: signup_def)
qed

theorem signup_duplicate_email_witness:
  "ana_doc \<in> set (colls ana_store ''user'')
   \<and> map_of (doc_fields ana_doc) ''email''
       = Some (VStr (sp_email \<lparr>sp_name = ''Ann'', sp_email = ''ana@x.com'', sp_password = ''other''\<rparr>))
   \<and> signup plain_context ''salt'' ana_store
        \<lparr>sp_name = ''Ann'', sp_email = ''ana@x.com'', sp_password = ''other''\<rparr>
       = (Inl (HTTPException 400 ''Email already registered''), ana_store)"
proof -
  have m: "ana_doc \<in> set (colls ana_store ''user'')"
    by (simp add: ana_store_def)
  have e: "map_of (doc_fields ana_doc) ''email''
       = Some (VStr (sp_email \<lparr>sp_name = ''Ann'', sp_email = ''ana@x.com'', sp_password = ''other''\<rparr>))"
    by (simp add: ana_doc_def)
  from m e signup_duplicate_email [OF m e, of plain_context "''salt''"] show ?thesis
    by simp
qed



text \<open>
  Claim C5 says that verifying never raises, a malformed digest included, so that a
  login on a user document without \<^verbatim>\<open>password_hash\<close> is answered with
  \<open>Invalid credentials\<close>. The handler substitutes the empty string for the missing
  field and calls the library without a handler around the call; the library does not
  identify the empty string as a hash of any scheme and raises. The login ends in that
  exception.
\<close>

theorem login_without_hash_raises:
  assumes "find_one db ''user'' (field_is ''email'' (VStr (lp_email p))) = Some user"
    and "map_of (doc_fields user) ''password_hash'' = None"
  shows "login (passlib_context prim) db p
           = Inl (LibraryError ''UnknownHashError: hash could not be identified'')
       \<and> login (passlib_context prim) db p \<noteq> Inl (HTTPException 400 ''Invalid credentials'')"
  using assms
  by (simp add: login_def dict_get_def passlib_context_def CryptContext_verify_def
        bcrypt_identify_def starts_with_def)

theorem login_without_hash_raises_witness:
  "find_one bob_store ''user''
      (field_is ''email'' (VStr (lp_email \<lparr>lp_email = ''bob@x.com'', lp_password = ''pw123''\<rparr>)))
        = Some bob_doc
   \<and> map_of (doc_fields bob_doc) ''password_hash'' = None
   \<and> login (passlib_context plain_bcrypt) bob_store \<lparr>lp_email = ''bob@x.com'', lp_password = ''pw123''\<rparr>
       = Inl (LibraryError ''UnknownHashError: hash could not be identified'')"
proof -
  have a: "find_one bob_store ''user''
      (field_is ''email'' (VStr (lp_email \<lparr>lp_email = ''bob@x.com'', lp_password = ''pw123''\<rparr>)))
        = Some bob_doc"
    by (simp add: find_one_def bob_store_def field_is_def bob_doc_def)
  have b: "map_of (doc_fields bob_doc) ''password_hash'' = None"
    by (simp add: bob_doc_def)
  from a b login_without_hash_raises [OF a b, of plain_bcrypt] show ?thesis
    by simp
qed

section \<open>The empty profile update\<close>

text \<open>
  Claim C6. For a well-formed identifier, an update whose body has no field other than
  \<^verbatim>\<open>None\<close> answers \<open>updated: False\<close> and writes nothing: the store is the one it was.
\<close>

theorem empty_update_is_noop:
  assumes "length user_id = 24" and "list_all is_hex user_id"
    and "pu_name payload = None" and "pu_photo_url payload = None"
  shows "update_profile db user_id payload = (Inr (VDict [(''updated'', VBool False)]), db)"
proof -
  from assms(1,2) obtain i where "ObjectId user_id = Some i"
    using ObjectId_hex_digits by blast
  with assms(3,4) show ?thesis
    by (simp add: update_profile_def ProfileUpdate_dump_def opt_str_def)
qed

theorem empty_update_is_noop_witness:
  "length ''0123456789abcdef01234567'' = 24
   \<and> list_all is_hex ''0123456789abcdef01234567''
   \<and> update_profile ana_store ''0123456789abcdef01234567'' \<lparr>pu_name = None, pu_photo_url = None\<rparr>
       = (Inr (VDict [(''updated'', VBool False)]), ana_store)"
proof -
  have a: "length ''0123456789abcdef01234567'' = 24" by simp
  have b: "list_all is_hex ''0123456789abcdef01234567''" by (simp add: is_hex_def)
  from a b empty_update_is_noop [OF a b, of "\<lparr>pu_name = None, pu_photo_url = None\<rparr>" ana_store]
  show ?thesis by simp
qed

section \<open>What the handlers do to the store\<close>

lemma has_key_VDict: "has_key k (VDict kvs) \<longleftrightarrow> (\<exists>kv\<in>set kvs. fst kv = k \<or> has_key k (snd kv))"
  by (simp add: list_ex_iff)











lemma create_document_colls:
  "colls (snd (create_document db name data)) =
     (colls db)(name := colls db name @ [\<lparr>doc_id = new_oid (next_oid db), doc_fields = data\<rparr>])"
  by (simp add: create_document_def Let_def)

lemma create_document_fst: "fst (create_document db name data) = new_oid (next_oid db)"
  by (simp add: create_document_def Let_def)

text \<open>What a submission does: one record, built by the constructor, goes to the store.\<close>

lemma submission_effect:
  assumes "is_submission c"
  shows "\<exists>item resp. handle ctx db c = (Inr (VDict resp), snd (create_document db ''requestitem'' (RequestItem_dump item)))
     \<and> r_status item = ''sent'' \<and> r_type item \<in> request_types
     \<and> map_of resp ''status'' = Some (VStr ''ok'')
     \<and> \<not> has_key ''password_hash'' (VDict resp)
     \<and> (case r_meta item of None \<Rightarrow> True | Some m \<Rightarrow> \<not> has_key ''password_hash'' (VDict m))"
proof (cases c)
  case (SendText u t)
  show ?thesis unfolding SendText
    by (rule exI[of _ "(RequestItem_init u ''text'')\<lparr>r_text := Some t\<rparr>"])
       (simp add: send_text_def Let_def split_beta RequestItem_init_def request_types_def)
next
  case (SendContact u n ph)
  show ?thesis unfolding SendContact
    by (rule exI[of _ "(RequestItem_init u ''contact'')\<lparr>r_contact_name := Some n, r_contact_phone := Some ph\<rparr>"])
       (simp add: send_contact_def Let_def split_beta RequestItem_init_def request_types_def)
next
  case (SendLocation u la lo)
  show ?thesis unfolding SendLocation
    by (rule exI[of _ "(RequestItem_init u ''location'')\<lparr>r_location := Some \<lparr>lat = la, lng = lo\<rparr>\<rparr>"])
       (simp add: send_location_def Let_def split_beta RequestItem_init_def request_types_def)
next
  case (SendPhoto u f)
  show ?thesis unfolding SendPhoto
    by (rule exI[of _ "(RequestItem_init u ''photo'')\<lparr>r_photo_url := Some (upload_path f), r_meta := Some [(''size'', VInt (int (length (uf_content f))))]\<rparr>"])
       (simp add: send_photo_def Let_def split_beta RequestItem_init_def request_types_def)
next
  case (SendVoice u f)
  show ?thesis unfolding SendVoice
    by (rule exI[of _ "(RequestItem_init u ''voice'')\<lparr>r_voice_url := Some (upload_path f), r_meta := Some [(''size'', VInt (int (length (uf_content f))))]\<rparr>"])
       (simp add: send_voice_def Let_def split_beta RequestItem_init_def request_types_def)
qed (use assms in simp_all)

lemma other_calls_keep_requests:
  assumes "\<not> is_submission c"
  shows "colls (snd (handle ctx db c)) ''requestitem'' = colls db ''requestitem''"
proof (cases c)
  case (Signup salt p)
  then show ?thesis
    by (simp add: signup_def Let_def split_beta create_document_colls split: option.splits)
next
  case (UpdateProfile i p)
  then show ?thesis
    by (simp add: update_profile_def update_one_def Let_def split: option.splits)
qed (use assms in simp_all)









section \<open>Responses\<close>



section \<open>Requests\<close>

lemma requests_invariant:
  assumes "\<And>item. r_status item = ''sent'' \<Longrightarrow> r_type item \<in> request_types \<Longrightarrow> P (RequestItem_dump item)"
  shows "list_all (\<lambda>d. P (doc_fields d)) (colls (run ctx cs) ''requestitem'')"
proof -
  have step: "list_all (\<lambda>d. P (doc_fields d)) (colls (snd (handle ctx db c)) ''requestitem'')"
    if "list_all (\<lambda>d. P (doc_fields d)) (colls db ''requestitem'')" for db c
  proof (cases "is_submission c")
    case True
    from submission_effect[OF True, of ctx db] obtain item resp where
      "handle ctx db c = (Inr (VDict resp), snd (create_document db ''requestitem'' (RequestItem_dump item)))"
      "r_status item = ''sent''" "r_type item \<in> request_types"
      by blast
    with that assms show ?thesis
      by (simp add: create_document_colls)
  next
    case False
    with that show ?thesis by (simp add: other_calls_keep_requests)
  qed
  have "list_all (\<lambda>d. P (doc_fields d)) (colls db ''requestitem'')
    \<Longrightarrow> list_all (\<lambda>d. P (doc_fields d)) (colls (foldl (\<lambda>db c. snd (handle ctx db c)) db cs) ''requestitem'')" for db
    by (induction cs arbitrary: db) (simp_all add: step)
  then show ?thesis
    by (simp add: run_def empty_store_def)
qed

text \<open>
  Claim C8. Each of the five submissions appends one record with status \<open>sent\<close> to
  the request collection while its response says \<open>ok\<close>; no call changes or removes a
  record that is already there, so every record the service has stored has status
  \<open>sent\<close>.
\<close>

theorem submissions_stored_as_sent:
  "take (length (colls db ''requestitem'')) (colls (snd (handle ctx db c)) ''requestitem'')
     = colls db ''requestitem''
   \<and> (is_submission c \<longrightarrow>
        (\<exists>d resp. colls (snd (handle ctx db c)) ''requestitem'' = colls db ''requestitem'' @ [d]
           \<and> map_of (doc_fields d) ''status'' = Some (VStr ''sent'')
           \<and> fst (handle ctx db c) = Inr (VDict resp)
           \<and> map_of resp ''status'' = Some (VStr ''ok'')))
   \<and> (\<not> is_submission c \<longrightarrow>
        colls (snd (handle ctx db c)) ''requestitem'' = colls db ''requestitem'')
   \<and> list_all (\<lambda>d. map_of (doc_fields d) ''status'' = Some (VStr ''sent''))
        (colls (run ctx cs) ''requestitem'')"
proof (intro conjI impI)
  show "list_all (\<lambda>d. map_of (doc_fields d) ''status'' = Some (VStr ''sent''))
        (colls (run ctx cs) ''requestitem'')"
    by (rule requests_invariant) (simp add: RequestItem_dump_def)
next
  assume "\<not> is_submission c"
  then show "colls (snd (handle ctx db c)) ''requestitem'' = colls db ''requestitem''"
    by (rule other_calls_keep_requests)
next
  assume s: "is_submission c"
  from submission_effect[OF s, of ctx db] obtain item resp where
    h: "handle ctx db c = (Inr (VDict resp), snd (create_document db ''requestitem'' (RequestItem_dump item)))"
    and "r_status item = ''sent''" "map_of resp ''status'' = Some (VStr ''ok'')"
    by blast
  then show "\<exists>d resp. colls (snd (handle ctx db c)) ''requestitem'' = colls db ''requestitem'' @ [d]
           \<and> map_of (doc_fields d) ''status'' = Some (VStr ''sent'')
           \<and> fst (handle ctx db c) = Inr (VDict resp)
           \<and> map_of resp ''status'' = Some (VStr ''ok'')"
    by (simp add: create_document_colls RequestItem_dump_def)
next
  show "take (length (colls db ''requestitem'')) (colls (snd (handle ctx db c)) ''requestitem'')
     = colls db ''requestitem''"
  proof (cases "is_submission c")
    case True
    from submission_effect[OF True, of ctx db] show ?thesis
      by (auto simp: create_document_colls)
  next
    case False
    then show ?thesis by (simp add: other_calls_keep_requests)
  qed
qed

theorem submissions_stored_as_sent_witness:
  "is_submission (SendText ''u1'' ''hi'')
   \<and> (\<exists>d resp. colls (snd (handle plain_context empty_store (SendText ''u1'' ''hi''))) ''requestitem''
           = colls empty_store ''requestitem'' @ [d]
         \<and> map_of (doc_fields d) ''status'' = Some (VStr ''sent'')
         \<and> fst (handle plain_context empty_store (SendText ''u1'' ''hi'')) = Inr (VDict resp)
         \<and> map_of resp ''status'' = Some (VStr ''ok''))"
  using submissions_stored_as_sent [of empty_store plain_context "SendText ''u1'' ''hi''" "[]"]
  by simp




section \<open>Names at sign-up\<close>




section \<open>The listing\<close>

text \<open>
  Claim C10. The listing returns the matching request documents up to the cap of 100:
  as many as match when they are at most 100, exactly 100 otherwise.
\<close>

theorem list_requests_capped:
  "length (list_requests db user_id)
     = min 100 (length (filter (field_is ''user_id'' (VStr user_id)) (colls db ''requestitem'')))
   \<and> length (list_requests db user_id) \<le> 100"
  by (simp add: list_requests_def get_documents_def)

theorem list_requests_capped_witness:
  "length (list_requests (run plain_context [SendText ''u1'' ''hi'']) ''u1'') \<le> 100"
  using list_requests_capped [of "run plain_context [SendText ''u1'' ''hi'']" "''u1''"] by simp


end
